theory Spec2Isabelle
  imports Main
begin

section \<open>Values of the program\<close>

text \<open>
  The program is \<^verbatim>\<open>src/index.ts\<close>: it reads one environment variable, registers one
  middleware and two GET routes on an Express application, and starts listening. The
  values it handles are strings, small integers, and the object literal that
  \<^verbatim>\<open>res.json\<close> serialises. Numbers are modelled as integers, which is what the literals
  of the program are, and text as a list of 8-bit characters.
\<close>

datatype json =
    JNull
  | JBool bool
  | JNum int
  | JStr string
  | JArr "json list"
  | JObj "(string \<times> json) list"

subsection \<open>\<^verbatim>\<open>JSON.stringify\<close> without indentation\<close>

definition digit_char :: "nat \<Rightarrow> char" where
  "digit_char d = ''0123456789'' ! d"

fun show_nat :: "nat \<Rightarrow> string" where
  "show_nat n = (if n < 10 then [digit_char n] else show_nat (n div 10) @ [digit_char (n mod 10)])"

definition show_int :: "int \<Rightarrow> string" where
  "show_int i = (if i < 0 then CHR ''-'' # show_nat (nat (- i)) else show_nat (nat i))"

definition hex_char :: "nat \<Rightarrow> char" where
  "hex_char d = ''0123456789abcdef'' ! d"

definition quote_char :: "char \<Rightarrow> string" where
  "quote_char c =
     (let n = (of_char c :: nat) in
      if n = 34 then [CHR 0x5C, CHR 0x22]
      else if n = 92 then [CHR 0x5C, CHR 0x5C]
      else if n = 8 then [CHR 0x5C, CHR ''b'']
      else if n = 12 then [CHR 0x5C, CHR ''f'']
      else if n = 10 then [CHR 0x5C, CHR ''n'']
      else if n = 13 then [CHR 0x5C, CHR ''r'']
      else if n = 9 then [CHR 0x5C, CHR ''t'']
      else if n < 32
        then [CHR 0x5C, CHR ''u'', CHR ''0'', CHR ''0'', hex_char (n div 16), hex_char (n mod 16)]
      else [c])"

definition quote :: "string \<Rightarrow> string" where
  "quote s = CHR 0x22 # concat (map quote_char s) @ [CHR 0x22]"

fun join :: "string \<Rightarrow> string list \<Rightarrow> string" where
  "join sep [] = []"
| "join sep [x] = x"
| "join sep (x # y # ys) = x @ sep @ join sep (y # ys)"

fun stringify :: "json \<Rightarrow> string" where
  "stringify JNull = ''null''"
| "stringify (JBool b) = (if b then ''true'' else ''false'')"
| "stringify (JNum i) = show_int i"
| "stringify (JStr s) = quote s"
| "stringify (JArr vs) = ''['' @ join '','' (map stringify vs) @ '']''"
| "stringify (JObj kvs) =
     ''{'' @ join '','' (map (\<lambda>(k, v). quote k @ '':'' @ stringify v) kvs) @ ''}''"

subsection \<open>The product records\<close>

record product =
  id' :: int
  name :: string
  price :: int

definition products :: "product list" where
  "products =
     [\<lparr>id' = 1, name = ''Product A'', price = 100\<rparr>,
      \<lparr>id' = 2, name = ''Product B'', price = 150\<rparr>,
      \<lparr>id' = 3, name = ''Product C'', price = 200\<rparr>]"

definition product_json :: "product \<Rightarrow> json" where
  "product_json p =
     JObj [(''id'', JNum (id' p)), (''name'', JStr (name p)), (''price'', JNum (price p))]"

section \<open>Requests, responses and the framework's interface\<close>

text \<open>
  Express and Node are not part of the repository. They enter the model through the
  calls the program makes: \<^verbatim>\<open>express.json()\<close>, \<^verbatim>\<open>app.use\<close>, \<^verbatim>\<open>app.get\<close>, \<^verbatim>\<open>res.send\<close>,
  \<^verbatim>\<open>res.json\<close> and \<^verbatim>\<open>app.listen\<close>. Routing and response construction follow the
  framework's documented defaults (routing is case-insensitive and not strict about one
  trailing slash; a GET route also answers HEAD; OPTIONS gets an automatic reply for a
  path that has a route; an error passed to \<^verbatim>\<open>next\<close> skips the remaining layers and is
  answered by the default error handler with the error's status). Two parts of the
  framework are taken as parameters because their result depends on text processing
  that the program never sees: the JSON body parser and the comparison of cache
  validators.
\<close>

datatype http_method =
  GET | HEAD | POST | PUT | DELETE | OPTIONS | TRACE | PATCH | EXTENSION

text \<open>
  A request as the application receives it. \<open>req_method\<close> is \<^verbatim>\<open>req.method\<close>, where
  \<open>EXTENSION\<close> stands for any further method token that Node hands to the application
  (CONNECT is not one: Node keeps such a request to itself); \<open>path\<close> and \<open>query\<close>
  are the two parts of the URL; \<open>headers\<close> has lower-case names, as Node delivers them;
  \<open>payload\<close> is the raw body; \<open>body\<close> is \<^verbatim>\<open>req.body\<close>, undefined until a parser stores a
  value there.
\<close>

record request =
  req_method :: http_method
  path :: string
  query :: string
  headers :: "(string \<times> string) list"
  payload :: string
  body :: "json option"

text \<open>
  The response fields the model follows: status code, Content-Type and Allow headers,
  and the body. Other headers (Content-Length, ETag, Date, X-Powered-By) are left out.
\<close>

record response =
  statusCode :: nat
  contentType :: "string option"
  allow :: "string option"
  content :: string

text \<open>
  What a body-parsing middleware does with a request: \<^verbatim>\<open>next()\<close>, with the value that
  \<^verbatim>\<open>req.body\<close> has by then, or \<^verbatim>\<open>next(err)\<close> with \<^verbatim>\<open>err.status\<close>.
\<close>

datatype mw_result = Next "json option" | NextErr nat

text \<open>
  The two parameters: \<open>express_json\<close> is the middleware that \<^verbatim>\<open>express.json()\<close> returns;
  \<open>revalidates\<close> says whether the validators among the given request headers match a
  response with the given body (the entity-tag comparison behind \<^verbatim>\<open>req.fresh\<close>).
\<close>

record framework =
  express_json :: "request \<Rightarrow> mw_result"
  revalidates :: "(string \<times> string) list \<Rightarrow> string \<Rightarrow> bool"

text \<open>What a handler asks of \<^verbatim>\<open>res\<close>: \<^verbatim>\<open>res.send(text)\<close> or \<^verbatim>\<open>res.json(value)\<close>.\<close>

datatype reply = Send string | Json json

text \<open>
  The layers that \<^verbatim>\<open>app.use\<close> and \<^verbatim>\<open>app.get\<close> register. A route names its handler, one
  of the two arrow functions of the program (lines 14 and 22).
\<close>

datatype handler_name = RootHandler | ProductsHandler

datatype layer =
    Use "request \<Rightarrow> mw_result"
  | Get string handler_name

text \<open>
  How a request ends: a response written by a handler or by the router's automatic
  OPTIONS reply, the framework's default 404, or the framework's default error response
  for an error with the given status.
\<close>

datatype outcome = Responded response | NotFound | Errored nat

definition status_of :: "outcome \<Rightarrow> nat" where
  "status_of out =
     (case out of
        Responded res \<Rightarrow> statusCode res
      | NotFound \<Rightarrow> 404
      | Errored e \<Rightarrow> (if 400 \<le> e \<and> e < 600 then e else 500))"

section \<open>The program\<close>

subsection \<open>Line 5: the port\<close>

datatype js_value = Undefined | Str string | Num int

definition truthy :: "js_value \<Rightarrow> bool" where
  "truthy v = (case v of Undefined \<Rightarrow> False | Str s \<Rightarrow> s \<noteq> [] | Num n \<Rightarrow> n \<noteq> 0)"

definition js_or :: "js_value \<Rightarrow> js_value \<Rightarrow> js_value" where
  "js_or a b = (if truthy a then a else b)"

definition env_get :: "(string \<rightharpoonup> string) \<Rightarrow> string \<Rightarrow> js_value" where
  "env_get env k = (case env k of None \<Rightarrow> Undefined | Some s \<Rightarrow> Str s)"

definition PORT :: "(string \<rightharpoonup> string) \<Rightarrow> js_value" where
  "PORT env = js_or (env_get env ''PORT'') (Num 5000)"

subsection \<open>The state of the module\<close>

text \<open>
  What the module holds once it is loaded: the layers registered on \<^verbatim>\<open>app\<close> and the
  constant \<^verbatim>\<open>PORT\<close>. A handler is a closure of the module, so it runs against this state
  and returns it together with the call it makes on \<^verbatim>\<open>res\<close>.
\<close>

record server =
  stack :: "layer list"
  port :: js_value

subsection \<open>Lines 14 to 30: the handlers\<close>

text \<open>Neither handler reads \<^verbatim>\<open>req\<close>, and neither contains an assignment.\<close>

definition root_handler :: "request \<Rightarrow> server \<Rightarrow> reply \<times> server" where
  "root_handler req srv = (Send ''Hello, World from the Dockerize App!'', srv)"

definition products_handler :: "request \<Rightarrow> server \<Rightarrow> reply \<times> server" where
  "products_handler req srv =
     (Json (JObj [(''products'', JArr (map product_json products))]), srv)"

definition call :: "handler_name \<Rightarrow> request \<Rightarrow> server \<Rightarrow> reply \<times> server" where
  "call h = (case h of RootHandler \<Rightarrow> root_handler | ProductsHandler \<Rightarrow> products_handler)"

subsection \<open>Lines 8 to 30: the registrations, in order\<close>

definition app :: "framework \<Rightarrow> layer list" where
  "app fw = [Use (express_json fw), Get ''/'' RootHandler, Get ''/products'' ProductsHandler]"

subsection \<open>Lines 33 to 35: start listening\<close>

definition to_string :: "js_value \<Rightarrow> string" where
  "to_string v = (case v of Undefined \<Rightarrow> ''undefined'' | Str s \<Rightarrow> s | Num n \<Rightarrow> show_int n)"

text \<open>
  \<open>listen_port\<close> is the first argument of \<^verbatim>\<open>app.listen\<close>, the port on which the program
  asks for its listener; \<open>banner\<close> is the line that the callback given as the second
  argument logs when it runs. Whether the runtime can bind that port, and what happens
  when it cannot, is not part of the model: the program has no code for it.
\<close>

record startup =
  listen_port :: js_value
  banner :: string

definition start :: "(string \<rightharpoonup> string) \<Rightarrow> startup" where
  "start env =
     \<lparr>listen_port = PORT env,
      banner = ''Server is running on http://localhost:'' @ to_string (PORT env)\<rparr>"

section \<open>The framework's routing and response construction\<close>

definition lower_char :: "char \<Rightarrow> char" where
  "lower_char c =
     (let n = (of_char c :: nat) in if 65 \<le> n \<and> n \<le> 90 then char_of (n + 32) else c)"

definition lower :: "string \<Rightarrow> string" where
  "lower s = map lower_char s"

text \<open>
  The match of a route path without parameters or wildcards against the request path:
  the whole path, ignoring letter case, with one optional trailing slash.
\<close>

definition match_path :: "string \<Rightarrow> string \<Rightarrow> bool" where
  "match_path pattern p =
     (let stem = lower (if pattern \<noteq> [] \<and> last pattern = CHR ''/'' then butlast pattern
                        else pattern)
      in lower p = stem \<or> lower p = stem @ ''/'')"

text \<open>A route registered with \<^verbatim>\<open>app.get\<close> handles GET, and HEAD as well.\<close>

definition handles_method :: "http_method \<Rightarrow> bool" where
  "handles_method m = (m = GET \<or> m = HEAD)"

definition route_options :: "string list" where
  "route_options = [''GET'', ''HEAD'']"

fun appendMethods :: "string list \<Rightarrow> string list \<Rightarrow> string list" where
  "appendMethods list [] = list"
| "appendMethods list (m # ms) = appendMethods (if m \<in> set list then list else list @ [m]) ms"

definition header :: "request \<Rightarrow> string \<Rightarrow> js_value" where
  "header req k = (case map_of (headers req) k of None \<Rightarrow> Undefined | Some v \<Rightarrow> Str v)"

text \<open>
  \<^verbatim>\<open>req.fresh\<close> for a response with status 200: only GET and HEAD, only a request that
  carries If-None-Match or If-Modified-Since, and then by comparing the validators.
\<close>

definition conditional :: "request \<Rightarrow> bool" where
  "conditional req =
     (truthy (header req ''if-modified-since'') \<or> truthy (header req ''if-none-match''))"

definition fresh :: "framework \<Rightarrow> request \<Rightarrow> string \<Rightarrow> bool" where
  "fresh fw req chunk =
     ((req_method req = GET \<or> req_method req = HEAD) \<and> conditional req
      \<and> revalidates fw (headers req) chunk)"

text \<open>
  The common end of \<^verbatim>\<open>res.send\<close> for a text body: a fresh request is answered 304
  without Content-Type and body; a HEAD request gets the headers without the body.
\<close>

definition send_text ::
  "framework \<Rightarrow> request \<Rightarrow> string \<Rightarrow> string option \<Rightarrow> string \<Rightarrow> response" where
  "send_text fw req ctype allowed chunk =
     (if fresh fw req chunk
      then \<lparr>statusCode = 304, contentType = None, allow = allowed, content = []\<rparr>
      else \<lparr>statusCode = 200, contentType = Some ctype, allow = allowed,
             content = (if req_method req = HEAD then [] else chunk)\<rparr>)"

definition res_send :: "framework \<Rightarrow> request \<Rightarrow> string \<Rightarrow> response" where
  "res_send fw req chunk = send_text fw req ''text/html; charset=utf-8'' None chunk"

definition res_json :: "framework \<Rightarrow> request \<Rightarrow> json \<Rightarrow> response" where
  "res_json fw req v = send_text fw req ''application/json; charset=utf-8'' None (stringify v)"

definition respond :: "framework \<Rightarrow> request \<Rightarrow> reply \<Rightarrow> response" where
  "respond fw req r =
     (case r of Send chunk \<Rightarrow> res_send fw req chunk | Json v \<Rightarrow> res_json fw req v)"

definition sendOptionsResponse :: "framework \<Rightarrow> request \<Rightarrow> string list \<Rightarrow> response" where
  "sendOptionsResponse fw req options =
     send_text fw req ''text/html; charset=utf-8'' (Some (join '','' options)) (join '','' options)"

text \<open>
  The router's loop over the layers, in registration order, with the module's state
  passed through the handler that runs. \<open>options\<close> collects the methods of the routes
  whose path matched an OPTIONS request. After \<^verbatim>\<open>next(err)\<close> the remaining layers are
  skipped: a route never runs with a pending error, and the program registers no
  error-handling middleware.
\<close>

fun router ::
  "framework \<Rightarrow> layer list \<Rightarrow> request \<Rightarrow> string list \<Rightarrow> server \<Rightarrow> outcome \<times> server" where
  "router fw [] req options srv =
     (if req_method req = OPTIONS \<and> options \<noteq> []
      then (Responded (sendOptionsResponse fw req options), srv)
      else (NotFound, srv))"
| "router fw (Use mw # rest) req options srv =
     (case mw req of
        Next b \<Rightarrow> router fw rest (req\<lparr>body := b\<rparr>) options srv
      | NextErr e \<Rightarrow> (Errored e, srv))"
| "router fw (Get pattern h # rest) req options srv =
     (if \<not> match_path pattern (path req) then router fw rest req options srv
      else if handles_method (req_method req)
        then (let (r, srv') = call h req srv in (Responded (respond fw req r), srv'))
      else router fw rest req
             (if req_method req = OPTIONS then appendMethods options route_options else options)
             srv)"

text \<open>
  The running service: the state that loading the module leaves, and requests served
  against it one after the other, each on the state its predecessor left.
\<close>

definition boot :: "framework \<Rightarrow> (string \<rightharpoonup> string) \<Rightarrow> server" where
  "boot fw env = \<lparr>stack = app fw, port = listen_port (start env)\<rparr>"

definition serve :: "framework \<Rightarrow> server \<Rightarrow> request \<Rightarrow> outcome \<times> server" where
  "serve fw srv req = router fw (stack srv) req [] srv"

fun serve_all :: "framework \<Rightarrow> server \<Rightarrow> request list \<Rightarrow> outcome list \<times> server" where
  "serve_all fw srv [] = ([], srv)"
| "serve_all fw srv (req # reqs) =
     (let (out, srv') = serve fw srv req; (outs, srv'') = serve_all fw srv' reqs
      in (out # outs, srv''))"

section \<open>An instance of the parameters, and example requests\<close>

text \<open>
  The examples need a concrete framework. \<open>sample_json\<close> refuses, with status 400, a body
  sent as \<^verbatim>\<open>application/json\<close> whose first non-blank character opens neither an object
  nor an array (what the parser's strict mode refuses before it parses anything), and
  passes every other request on without a parsed body. The sample validator comparison
  accepts \<^verbatim>\<open>If-None-Match: *\<close> on a request with no other cache header. Both are stand-ins
  that agree with the framework on the requests of the examples, not models of it: the
  parser also refuses malformed text that opens with a brace or a bracket, reads the
  media type out of a longer Content-Type and has further error statuses, and the
  freshness check also accepts a matching entity tag.
\<close>

fun firstchar :: "string \<Rightarrow> char option" where
  "firstchar [] = None"
| "firstchar (c # cs) =
     (if c \<in> set [CHR '' '', CHR 0x09, CHR 0x0A, CHR 0x0D] then firstchar cs else Some c)"

definition sample_json :: "request \<Rightarrow> mw_result" where
  "sample_json req =
     (if map_of (headers req) ''content-type'' = Some ''application/json''
         \<and> payload req \<noteq> []
         \<and> firstchar (payload req) \<noteq> Some (CHR ''{'')
         \<and> firstchar (payload req) \<noteq> Some (CHR ''['')
      then NextErr 400 else Next None)"

definition sample_framework :: framework where
  "sample_framework =
     \<lparr>express_json = sample_json,
      revalidates = (\<lambda>hs chunk. map_of hs ''if-none-match'' = Some ''*''
                        \<and> map_of hs ''if-modified-since'' = None
                        \<and> map_of hs ''cache-control'' = None)\<rparr>"

definition no_env :: "string \<rightharpoonup> string" where
  "no_env = Map.empty"

definition plain_request :: "http_method \<Rightarrow> string \<Rightarrow> request" where
  "plain_request m p =
     \<lparr>req_method = m, path = p, query = [], headers = [], payload = [], body = None\<rparr>"

definition json_get :: "string \<Rightarrow> string \<Rightarrow> request" where
  "json_get p text =
     \<lparr>req_method = GET, path = p, query = [], headers = [(''content-type'', ''application/json'')],
      payload = text, body = None\<rparr>"

definition busy_get :: request where
  \<open>busy_get =
     \<lparr>req_method = GET, path = ''/'', query = ''name=x&n=2'',
      headers = [(''accept'', ''*/*''), (''x-trace'', ''7''), (''content-type'', ''application/json'')],
      payload = ''{"k":[1,2]}'', body = None\<rparr>\<close>

definition revalidating_get :: "string \<Rightarrow> request" where
  "revalidating_get p =
     \<lparr>req_method = GET, path = p, query = [], headers = [(''if-none-match'', ''*'')],
      payload = [], body = None\<rparr>"

definition sample_calls :: "request list" where
  "sample_calls =
     [plain_request GET ''/products'', plain_request POST ''/unknown'',
      json_get ''/products'' ''[1,2]'']"

section \<open>Notions for the claims: the served value, reaching a handler\<close>




text \<open>
  A request reaches a handler when the body parser passes it on, its method is one a GET
  route handles, and its path matches the handler's route and no route registered
  before it.
\<close>

definition reaches :: "framework \<Rightarrow> request \<Rightarrow> handler_name \<Rightarrow> bool" where
  "reaches fw req h =
     ((case express_json fw req of Next b \<Rightarrow> True | NextErr e \<Rightarrow> False)
      \<and> handles_method (req_method req)
      \<and> (case h of
            RootHandler \<Rightarrow> match_path ''/'' (path req)
          | ProductsHandler \<Rightarrow>
              \<not> match_path ''/'' (path req) \<and> match_path ''/products'' (path req)))"

section \<open>Facts about routing used below\<close>

lemma products_text:
  \<open>stringify (JObj [(''products'', JArr (map product_json products))]) =
   ''{"products":[{"id":1,"name":"Product A","price":100},{"id":2,"name":"Product B","price":150},{"id":3,"name":"Product C","price":200}]}''\<close>
  by (simp add: products_def product_json_def quote_def quote_char_def show_int_def
      digit_char_def)

lemma fresh_body: "fresh fw (req\<lparr>body := b\<rparr>) chunk = fresh fw req chunk"
  by (simp add: fresh_def conditional_def header_def)

lemma send_text_body:
  "send_text fw (req\<lparr>body := b\<rparr>) ctype allowed chunk = send_text fw req ctype allowed chunk"
  by (simp add: send_text_def fresh_body)

lemma call_reply:
  "fst (call h req srv) =
     (case h of RootHandler \<Rightarrow> Send ''Hello, World from the Dockerize App!''
      | ProductsHandler \<Rightarrow> Json (JObj [(''products'', JArr (map product_json products))]))"
  by (simp add: call_def root_handler_def products_handler_def split: handler_name.splits)

lemma call_state: "snd (call h req srv) = srv"
  by (simp add: call_def root_handler_def products_handler_def split: handler_name.splits)

lemma router_state: "snd (router fw ls req options srv) = srv"
proof (induction ls arbitrary: req options)
  case Nil
  show ?case by simp
next
  case (Cons l ls)
  show ?case
  proof (cases l)
    case (Use mw)
    then show ?thesis
      using Cons.IH by (simp split: mw_result.splits)
  next
    case (Get pattern h)
    have "snd (call h req srv) = srv"
      by (rule call_state)
    with Get show ?thesis
      using Cons.IH by (simp add: case_prod_beta)
  qed
qed

lemma serve_state: "snd (serve fw srv req) = srv"
  by (simp add: serve_def router_state)

lemma serve_all_state: "snd (serve_all fw srv reqs) = srv"
proof (induction reqs)
  case Nil
  show ?case by simp
next
  case (Cons req reqs)
  have "snd (serve fw srv req) = srv"
    by (rule serve_state)
  with Cons.IH show ?case
    by (simp add: case_prod_beta)
qed

lemma serve_all_outs: "fst (serve_all fw srv reqs) = map (\<lambda>req. fst (serve fw srv req)) reqs"
proof (induction reqs)
  case Nil
  show ?case by simp
next
  case (Cons req reqs)
  have "snd (serve fw srv req) = srv"
    by (rule serve_state)
  with Cons.IH show ?case
    by (simp add: case_prod_beta)
qed

lemma serve_boot:
  "fst (serve fw (boot fw env) req) = fst (router fw (app fw) req [] (boot fw env))"
  by (simp add: serve_def boot_def)

lemma match_root_root: "match_path ''/'' ''/''"
  by code_simp

lemma match_root_products: "\<not> match_path ''/'' ''/products''"
  by code_simp

lemma match_products_products: "match_path ''/products'' ''/products''"
  by code_simp





lemma router_refused:
  "express_json fw req = NextErr e \<Longrightarrow> fst (router fw (app fw) req [] srv) = Errored e"
  by (simp add: app_def)

text \<open>The three ways in which a request that the parser passes on leaves the router.\<close>

lemma router_reaches:
  assumes "reaches fw req h"
  shows "fst (router fw (app fw) req [] srv) = Responded (respond fw req (fst (call h req srv)))"
proof -
  from assms obtain b where b: "express_json fw req = Next b"
    by (auto simp: reaches_def split: mw_result.splits)
  have r: "respond fw (req\<lparr>body := b\<rparr>) x = respond fw req x" for x
    by (simp add: respond_def res_send_def res_json_def send_text_body split: reply.splits)
  have c: "fst (call h (req\<lparr>body := b\<rparr>) srv) = fst (call h req srv)"
    by (simp add: call_reply)
  show ?thesis
    using assms b r c
    by (cases h) (simp_all add: reaches_def app_def case_prod_beta)
qed

lemma router_root:
  assumes "express_json fw req = Next v" and "path req = ''/''"
    and "handles_method (req_method req)"
  shows "fst (router fw (app fw) req [] srv) = Responded (res_send fw req ''Hello, World from the Dockerize App!'')"
proof -
  have "reaches fw req RootHandler"
    using assms by (simp add: reaches_def match_root_root)
  then show ?thesis
    by (simp add: router_reaches call_reply respond_def)
qed

lemma router_products:
  assumes "express_json fw req = Next v" and "path req = ''/products''"
    and "handles_method (req_method req)"
  shows "fst (router fw (app fw) req [] srv) = Responded (res_json fw req (JObj [(''products'', JArr (map product_json products))]))"
proof -
  have "reaches fw req ProductsHandler"
    using assms by (simp add: reaches_def match_root_products match_products_products)
  then show ?thesis
    by (simp add: router_reaches call_reply respond_def)
qed

lemma products_200:
  assumes "req_method req = GET" and "path req = ''/products''"
    and "express_json fw req = Next v"
    and \<open>\<not> fresh fw req ''{"products":[{"id":1,"name":"Product A","price":100},{"id":2,"name":"Product B","price":150},{"id":3,"name":"Product C","price":200}]}''\<close>
  shows \<open>fst (router fw (app fw) req [] srv) =
         Responded \<lparr>statusCode = 200, contentType = Some ''application/json; charset=utf-8'',
                    allow = None,
                    content = ''{"products":[{"id":1,"name":"Product A","price":100},{"id":2,"name":"Product B","price":150},{"id":3,"name":"Product C","price":200}]}''\<rparr>\<close>
proof -
  have "handles_method (req_method req)"
    using assms(1) by (simp add: handles_method_def)
  then have "fst (router fw (app fw) req [] srv) = Responded (res_json fw req (JObj [(''products'', JArr (map product_json products))]))"
    by (rule router_products [OF assms(3) assms(2)])
  then show ?thesis
    using assms(1,4)
    by (simp add: res_json_def send_text_def products_text del: stringify.simps)
qed



lemma sample_accepts_plain: "express_json sample_framework (plain_request m p) = Next None"
  by (simp add: sample_framework_def sample_json_def plain_request_def)

lemma unconditional_not_fresh: "\<not> conditional req \<Longrightarrow> \<not> fresh fw req chunk"
  by (simp add: fresh_def)

lemma plain_not_fresh: "\<not> fresh fw (plain_request m p) chunk"
  by (simp add: fresh_def conditional_def header_def truthy_def plain_request_def)

lemma sample_fresh: "fresh sample_framework (revalidating_get p) chunk"
  by (simp add: fresh_def conditional_def header_def truthy_def sample_framework_def
      revalidating_get_def)

lemma sample_accepts_revalidating: "express_json sample_framework (revalidating_get p) = Next None"
  by (simp add: sample_framework_def sample_json_def revalidating_get_def)

lemma sample_refuses:
  "firstchar text = Some c \<Longrightarrow> c \<noteq> CHR ''{'' \<Longrightarrow> c \<noteq> CHR ''['' \<Longrightarrow>
   express_json sample_framework (json_get p text) = NextErr 400"
  by (auto simp: sample_framework_def sample_json_def json_get_def)

text \<open>
  A conditional request shows why the theorems about status 200 exclude fresh requests:
  with the sample framework, \<^verbatim>\<open>GET /\<close> with \<^verbatim>\<open>If-None-Match: *\<close> is answered 304 with an
  empty body.
\<close>

lemma revalidating_root_304:
  "fst (serve sample_framework (boot sample_framework no_env) (revalidating_get ''/'')) =
   Responded \<lparr>statusCode = 304, contentType = None, allow = None, content = []\<rparr>"
proof -
  have "path (revalidating_get ''/'') = ''/''" and "handles_method (req_method (revalidating_get ''/''))"
    by (simp_all add: revalidating_get_def handles_method_def)
  then show ?thesis
    using sample_fresh [of "''/''"]
    by (simp add: serve_boot router_root [OF sample_accepts_revalidating] res_send_def
        send_text_def)
qed

lemma revalidating_products_304:
  "fst (serve sample_framework (boot sample_framework no_env) (revalidating_get ''/products'')) =
   Responded \<lparr>statusCode = 304, contentType = None, allow = None, content = []\<rparr>"
proof -
  have "path (revalidating_get ''/products'') = ''/products''"
    and "handles_method (req_method (revalidating_get ''/products''))"
    by (simp_all add: revalidating_get_def handles_method_def)
  then show ?thesis
    using sample_fresh [of "''/products''"]
    by (simp add: serve_boot router_products [OF sample_accepts_revalidating] res_json_def
        send_text_def del: stringify.simps)
qed

lemma plain_root_200:
  assumes "m = GET \<or> m = HEAD"
  shows "fst (serve sample_framework (boot sample_framework no_env) (plain_request m ''/'')) =
         Responded \<lparr>statusCode = 200, contentType = Some ''text/html; charset=utf-8'',
                    allow = None, content = (if m = HEAD then [] else ''Hello, World from the Dockerize App!'')\<rparr>"
proof -
  have p: "path (plain_request m ''/'') = ''/''" and rm: "req_method (plain_request m ''/'') = m"
    by (simp_all add: plain_request_def)
  have h: "handles_method (req_method (plain_request m ''/''))"
    using assms rm by (auto simp: handles_method_def)
  have "fst (serve sample_framework (boot sample_framework no_env) (plain_request m ''/'')) =
        Responded (res_send sample_framework (plain_request m ''/'') ''Hello, World from the Dockerize App!'')"
    by (simp only: serve_boot router_root [OF sample_accepts_plain p h])
  then show ?thesis
    using plain_not_fresh [of sample_framework m "''/''"] rm
    by (simp add: res_send_def send_text_def)
qed

lemma plain_products_200:
  \<open>fst (serve sample_framework (boot sample_framework no_env) (plain_request GET ''/products'')) =
   Responded \<lparr>statusCode = 200, contentType = Some ''application/json; charset=utf-8'',
                    allow = None,
                    content = ''{"products":[{"id":1,"name":"Product A","price":100},{"id":2,"name":"Product B","price":150},{"id":3,"name":"Product C","price":200}]}''\<rparr>\<close>
proof -
  have "req_method (plain_request GET ''/products'') = GET"
    and "path (plain_request GET ''/products'') = ''/products''"
    by (simp_all add: plain_request_def)
  then show ?thesis
    by (simp only: serve_boot products_200 [OF _ _ sample_accepts_plain plain_not_fresh])
qed


section \<open>The claims\<close>

subsection \<open>C1: the response of \<^verbatim>\<open>GET /products\<close>\<close>

text \<open>
  C1, as amended. Every GET request to \<^verbatim>\<open>/products\<close> that the JSON body parser passes on
  and that the framework does not answer as a fresh conditional request gets status 200,
  the header \<^verbatim>\<open>Content-Type: application/json; charset=utf-8\<close> and a body that is exactly
  the JSON text with the three records in the order 1, 2, 3. The query string, the
  headers and the body of the request are arbitrary.
\<close>

theorem get_products_response:
  assumes "req_method req = GET" and "path req = ''/products''"
    and "express_json fw req = Next v"
    and \<open>\<not> fresh fw req ''{"products":[{"id":1,"name":"Product A","price":100},{"id":2,"name":"Product B","price":150},{"id":3,"name":"Product C","price":200}]}''\<close>
  shows \<open>fst (serve fw (boot fw env) req) =
         Responded \<lparr>statusCode = 200, contentType = Some ''application/json; charset=utf-8'',
                    allow = None,
                    content = ''{"products":[{"id":1,"name":"Product A","price":100},{"id":2,"name":"Product B","price":150},{"id":3,"name":"Product C","price":200}]}''\<rparr>\<close>
  using assms by (simp add: serve_boot products_200)

theorem get_products_response_witness:
  \<open>req_method (plain_request GET ''/products'') = GET
   \<and> path (plain_request GET ''/products'') = ''/products''
   \<and> express_json sample_framework (plain_request GET ''/products'') = Next None
   \<and> \<not> fresh sample_framework (plain_request GET ''/products'') ''{"products":[{"id":1,"name":"Product A","price":100},{"id":2,"name":"Product B","price":150},{"id":3,"name":"Product C","price":200}]}''
   \<and> fst (serve sample_framework (boot sample_framework no_env) (plain_request GET ''/products'')) =
         Responded \<lparr>statusCode = 200, contentType = Some ''application/json; charset=utf-8'',
                    allow = None,
                    content = ''{"products":[{"id":1,"name":"Product A","price":100},{"id":2,"name":"Product B","price":150},{"id":3,"name":"Product C","price":200}]}''\<rparr>\<close>
proof -
  have h1: "req_method (plain_request GET ''/products'') = GET"
    and h2: "path (plain_request GET ''/products'') = ''/products''"
    by (simp_all add: plain_request_def)
  note h3 = sample_accepts_plain [of GET "''/products''"]
  note h4 = plain_not_fresh [of sample_framework GET "''/products''" \<open>''{"products":[{"id":1,"name":"Product A","price":100},{"id":2,"name":"Product B","price":150},{"id":3,"name":"Product C","price":200}]}''\<close>]
  show ?thesis
    using h1 h2 h3 h4 get_products_response [OF h1 h2 h3 h4, of no_env] by simp
qed

text \<open>
  The claim as stated fails: a GET request to \<^verbatim>\<open>/products\<close> that carries the body
  \<^verbatim>\<open><products/>\<close> as \<^verbatim>\<open>application/json\<close> is refused by the parser, which runs before
  the route, and is answered 400; and a GET request to \<^verbatim>\<open>/products\<close> with
  \<^verbatim>\<open>If-None-Match: *\<close> is answered 304 without Content-Type and body.
\<close>

theorem get_products_not_200:
  "req_method (json_get ''/products'' ''<products/>'') = GET
   \<and> path (json_get ''/products'' ''<products/>'') = ''/products''
   \<and> fst (serve sample_framework (boot sample_framework no_env)
            (json_get ''/products'' ''<products/>'')) = Errored 400
   \<and> status_of (fst (serve sample_framework (boot sample_framework no_env)
                       (json_get ''/products'' ''<products/>''))) = 400
   \<and> req_method (revalidating_get ''/products'') = GET
   \<and> path (revalidating_get ''/products'') = ''/products''
   \<and> fst (serve sample_framework (boot sample_framework no_env) (revalidating_get ''/products''))
       = Responded \<lparr>statusCode = 304, contentType = None, allow = None, content = []\<rparr>"
proof -
  have "express_json sample_framework (json_get ''/products'' ''<products/>'') = NextErr 400"
    by (rule sample_refuses [of _ "CHR ''<''"]) simp_all
  then have "fst (serve sample_framework (boot sample_framework no_env)
                   (json_get ''/products'' ''<products/>'')) = Errored 400"
    by (simp add: serve_boot router_refused)
  moreover have "req_method (revalidating_get ''/products'') = GET"
    and "path (revalidating_get ''/products'') = ''/products''"
    by (simp_all add: revalidating_get_def)
  ultimately show ?thesis
    using revalidating_products_304 by (simp add: status_of_def json_get_def)
qed

subsection \<open>C2: the response of \<^verbatim>\<open>GET /\<close>\<close>

text \<open>
  C2, as amended. Every GET request to \<^verbatim>\<open>/\<close> that the JSON body parser passes on and
  that the framework does not answer as a fresh conditional request gets status 200 and
  the body \<^verbatim>\<open>Hello, World from the Dockerize App!\<close>, whatever its query string, its other
  headers and its body are.
\<close>

theorem get_root_response:
  assumes "req_method req = GET" and "path req = ''/''"
    and "express_json fw req = Next v"
    and "\<not> fresh fw req ''Hello, World from the Dockerize App!''"
  shows "fst (serve fw (boot fw env) req) =
         Responded \<lparr>statusCode = 200, contentType = Some ''text/html; charset=utf-8'',
                    allow = None, content = ''Hello, World from the Dockerize App!''\<rparr>"
proof -
  have "handles_method (req_method req)"
    using assms(1) by (simp add: handles_method_def)
  with assms(2,3) have "fst (serve fw (boot fw env) req) = Responded (res_send fw req ''Hello, World from the Dockerize App!'')"
    by (simp add: serve_boot router_root)
  then show ?thesis
    using assms(1,4) by (simp add: res_send_def send_text_def)
qed

theorem get_root_response_witness:
  "req_method busy_get = GET \<and> path busy_get = ''/''
   \<and> query busy_get \<noteq> [] \<and> headers busy_get \<noteq> [] \<and> payload busy_get \<noteq> []
   \<and> express_json sample_framework busy_get = Next None
   \<and> \<not> fresh sample_framework busy_get ''Hello, World from the Dockerize App!''
   \<and> fst (serve sample_framework (boot sample_framework no_env) busy_get) =
         Responded \<lparr>statusCode = 200, contentType = Some ''text/html; charset=utf-8'',
                    allow = None, content = ''Hello, World from the Dockerize App!''\<rparr>"
proof -
  have h1: "req_method busy_get = GET" and h2: "path busy_get = ''/''"
    by (simp_all add: busy_get_def)
  have h3: "express_json sample_framework busy_get = Next None"
    by (simp add: sample_framework_def sample_json_def busy_get_def)
  have h4: "\<not> fresh sample_framework busy_get ''Hello, World from the Dockerize App!''"
    by (simp add: fresh_def conditional_def header_def truthy_def busy_get_def)
  have h5: "query busy_get \<noteq> [] \<and> headers busy_get \<noteq> [] \<and> payload busy_get \<noteq> []"
    by (simp add: busy_get_def)
  show ?thesis
    using h1 h2 h3 h4 h5 get_root_response [OF h1 h2 h3 h4, of no_env] by simp
qed

text \<open>
  The claim as stated fails on the body and on the headers: a GET request to \<^verbatim>\<open>/\<close> that
  carries \<^verbatim>\<open>name=abc\<close> as \<^verbatim>\<open>application/json\<close> is answered 400, and a GET request to
  \<^verbatim>\<open>/\<close> with \<^verbatim>\<open>If-None-Match: *\<close> is answered 304 with an empty body.
\<close>

theorem get_root_not_200:
  "req_method (json_get ''/'' ''name=abc'') = GET \<and> path (json_get ''/'' ''name=abc'') = ''/''
   \<and> status_of (fst (serve sample_framework (boot sample_framework no_env)
                       (json_get ''/'' ''name=abc''))) = 400
   \<and> req_method (revalidating_get ''/'') = GET \<and> path (revalidating_get ''/'') = ''/''
   \<and> status_of (fst (serve sample_framework (boot sample_framework no_env)
                       (revalidating_get ''/''))) = 304
   \<and> content (res_send sample_framework (revalidating_get ''/'')
                  ''Hello, World from the Dockerize App!'') = []"
proof -
  have "express_json sample_framework (json_get ''/'' ''name=abc'') = NextErr 400"
    by (rule sample_refuses [of _ "CHR ''n''"]) simp_all
  then have "fst (serve sample_framework (boot sample_framework no_env)
                   (json_get ''/'' ''name=abc'')) = Errored 400"
    by (simp add: serve_boot router_refused)
  moreover have "content (res_send sample_framework (revalidating_get ''/'') ''Hello, World from the Dockerize App!'') = []"
    using sample_fresh [of "''/''"] by (simp add: res_send_def send_text_def)
  ultimately show ?thesis
    using revalidating_root_304
    by (simp add: status_of_def json_get_def revalidating_get_def)
qed

subsection \<open>C3: a body that the parser refuses\<close>

text \<open>
  C3, as amended. The parser is registered before both routes and the program registers
  no error handler, so for every request on which the JSON body parser reports an error
  with status \<open>e\<close> no handler runs: the request ends in the framework's default error
  response, whose status is \<open>e\<close> when \<open>400 \<le> e < 600\<close> and 500 otherwise, and is never 200.
\<close>

theorem refused_body_response:
  assumes "express_json fw req = NextErr e"
  shows "fst (serve fw (boot fw env) req) = Errored e
         \<and> status_of (fst (serve fw (boot fw env) req)) = (if 400 \<le> e \<and> e < 600 then e else 500)
         \<and> status_of (fst (serve fw (boot fw env) req)) \<noteq> 200"
  using assms by (simp add: serve_boot router_refused status_of_def)

theorem refused_body_response_witness:
  \<open>express_json sample_framework (json_get ''/'' ''"half'') = NextErr 400
   \<and> fst (serve sample_framework (boot sample_framework no_env) (json_get ''/'' ''"half''))
       = Errored 400
   \<and> status_of (fst (serve sample_framework (boot sample_framework no_env)
                       (json_get ''/'' ''"half''))) = 400\<close>
proof -
  have h: \<open>express_json sample_framework (json_get ''/'' ''"half'') = NextErr 400\<close>
    by (simp add: sample_framework_def sample_json_def json_get_def)
  show ?thesis
    using h refused_body_response [OF h, of no_env] by (simp add: status_of_def)
qed

text \<open>
  The claim as stated fails: \<^verbatim>\<open>GET /\<close> with the malformed JSON body \<^verbatim>\<open>not json\<close> and
  \<^verbatim>\<open>Content-Type: application/json\<close> is answered 400, not 200.
\<close>

theorem malformed_json_get_root:
  "req_method (json_get ''/'' ''not json'') = GET \<and> path (json_get ''/'' ''not json'') = ''/''
   \<and> map_of (headers (json_get ''/'' ''not json'')) ''content-type'' = Some ''application/json''
   \<and> express_json sample_framework (json_get ''/'' ''not json'') = NextErr 400
   \<and> status_of (fst (serve sample_framework (boot sample_framework no_env)
                       (json_get ''/'' ''not json''))) \<noteq> 200"
proof -
  have "express_json sample_framework (json_get ''/'' ''not json'') = NextErr 400"
    by (rule sample_refuses [of _ "CHR ''n''"]) simp_all
  then show ?thesis
    by (simp add: serve_boot router_refused status_of_def json_get_def)
qed

subsection \<open>C4: the port\<close>



subsection \<open>C5: requests that no route serves\<close>




subsection \<open>C6: repeated calls to \<^verbatim>\<open>/products\<close>\<close>

text \<open>
  C6, as amended. In any sequence of requests, every call to \<^verbatim>\<open>GET /products\<close> that the
  body parser passes on and that the framework does not answer as a fresh conditional
  request gets the same response, byte for byte: status 200, the JSON content type and
  the JSON text of the three records, wherever the call stands in the sequence and
  whatever was served before it. And the state of the module after the whole sequence is
  the state that start-up left: no call changed it.
\<close>

theorem products_calls_idempotent:
  assumes "i < length reqs"
    and "req_method (reqs ! i) = GET" and "path (reqs ! i) = ''/products''"
    and "express_json fw (reqs ! i) = Next v"
    and \<open>\<not> fresh fw (reqs ! i) ''{"products":[{"id":1,"name":"Product A","price":100},{"id":2,"name":"Product B","price":150},{"id":3,"name":"Product C","price":200}]}''\<close>
  shows \<open>fst (serve_all fw (boot fw env) reqs) ! i =
         Responded \<lparr>statusCode = 200, contentType = Some ''application/json; charset=utf-8'',
                    allow = None,
                    content = ''{"products":[{"id":1,"name":"Product A","price":100},{"id":2,"name":"Product B","price":150},{"id":3,"name":"Product C","price":200}]}''\<rparr>
         \<and> snd (serve_all fw (boot fw env) reqs) = boot fw env\<close>
proof -
  have "fst (serve_all fw (boot fw env) reqs) ! i = fst (serve fw (boot fw env) (reqs ! i))"
    using assms(1) by (simp add: serve_all_outs)
  then show ?thesis
    using assms(2-5) by (simp add: serve_boot products_200 serve_all_state)
qed

theorem products_calls_idempotent_witness:
  \<open>req_method (sample_calls ! 0) = GET \<and> path (sample_calls ! 0) = ''/products''
   \<and> req_method (sample_calls ! 2) = GET \<and> path (sample_calls ! 2) = ''/products''
   \<and> sample_calls ! 0 \<noteq> sample_calls ! 2
   \<and> express_json sample_framework (sample_calls ! 0) = Next None
   \<and> express_json sample_framework (sample_calls ! 2) = Next None
   \<and> fst (serve_all sample_framework (boot sample_framework no_env) sample_calls) ! 0 =
         Responded \<lparr>statusCode = 200, contentType = Some ''application/json; charset=utf-8'',
                    allow = None,
                    content = ''{"products":[{"id":1,"name":"Product A","price":100},{"id":2,"name":"Product B","price":150},{"id":3,"name":"Product C","price":200}]}''\<rparr>
   \<and> fst (serve_all sample_framework (boot sample_framework no_env) sample_calls) ! 2 =
         Responded \<lparr>statusCode = 200, contentType = Some ''application/json; charset=utf-8'',
                    allow = None,
                    content = ''{"products":[{"id":1,"name":"Product A","price":100},{"id":2,"name":"Product B","price":150},{"id":3,"name":"Product C","price":200}]}''\<rparr>
   \<and> snd (serve_all sample_framework (boot sample_framework no_env) sample_calls)
       = boot sample_framework no_env\<close>
proof -
  have c0: "sample_calls ! 0 = plain_request GET ''/products''"
    and c2: "sample_calls ! 2 = json_get ''/products'' ''[1,2]''"
    and len: "0 < length sample_calls" "2 < length sample_calls"
    by (simp_all add: sample_calls_def)
  have m0: "req_method (sample_calls ! 0) = GET" and p0: "path (sample_calls ! 0) = ''/products''"
    and m2: "req_method (sample_calls ! 2) = GET" and p2: "path (sample_calls ! 2) = ''/products''"
    and d: "sample_calls ! 0 \<noteq> sample_calls ! 2"
    by (simp_all add: c0 c2 plain_request_def json_get_def)
  have a0: "express_json sample_framework (sample_calls ! 0) = Next None"
    and a2: "express_json sample_framework (sample_calls ! 2) = Next None"
    by (simp_all add: c0 c2 sample_framework_def sample_json_def plain_request_def json_get_def)
  have f0: \<open>\<not> fresh sample_framework (sample_calls ! 0) ''{"products":[{"id":1,"name":"Product A","price":100},{"id":2,"name":"Product B","price":150},{"id":3,"name":"Product C","price":200}]}''\<close>
    and f2: \<open>\<not> fresh sample_framework (sample_calls ! 2) ''{"products":[{"id":1,"name":"Product A","price":100},{"id":2,"name":"Product B","price":150},{"id":3,"name":"Product C","price":200}]}''\<close>
    by (simp_all add: c0 c2 fresh_def conditional_def header_def truthy_def plain_request_def
        json_get_def)
  note t0 = products_calls_idempotent [OF len(1) m0 p0 a0 f0, where env = no_env]
  note t2 = products_calls_idempotent [OF len(2) m2 p2 a2 f2, where env = no_env]
  show ?thesis
    using m0 p0 m2 p2 d a0 a2 t0 t2 by simp
qed

text \<open>
  The claim as stated fails: of three calls to \<^verbatim>\<open>GET /products\<close>, the second with
  \<^verbatim>\<open>If-None-Match: *\<close> as a client sends it to revalidate its copy and the third with the
  body \<^verbatim>\<open>name=abc\<close> sent as \<^verbatim>\<open>application/json\<close>, the first is answered 200 with the JSON
  text, the second 304 with an empty body and the third 400.
\<close>

theorem repeated_products_calls_differ:
  "req_method (plain_request GET ''/products'') = GET
   \<and> path (plain_request GET ''/products'') = ''/products''
   \<and> req_method (revalidating_get ''/products'') = GET
   \<and> path (revalidating_get ''/products'') = ''/products''
   \<and> req_method (json_get ''/products'' ''name=abc'') = GET
   \<and> path (json_get ''/products'' ''name=abc'') = ''/products''
   \<and> map status_of
        (fst (serve_all sample_framework (boot sample_framework no_env)
               [plain_request GET ''/products'', revalidating_get ''/products'',
                json_get ''/products'' ''name=abc'']))
       = [200, 304, 400]"
proof -
  have "express_json sample_framework (json_get ''/products'' ''name=abc'') = NextErr 400"
    by (rule sample_refuses [of _ "CHR ''n''"]) simp_all
  then have "fst (serve sample_framework (boot sample_framework no_env)
                   (json_get ''/products'' ''name=abc'')) = Errored 400"
    by (simp add: serve_boot router_refused)
  then have "map status_of
          (fst (serve_all sample_framework (boot sample_framework no_env)
                 [plain_request GET ''/products'', revalidating_get ''/products'',
                  json_get ''/products'' ''name=abc'']))
        = [200, 304, 400]"
    by (simp only: serve_all_outs)
      (simp add: plain_products_200 revalidating_products_304 status_of_def)
  then show ?thesis
    by (simp add: plain_request_def revalidating_get_def json_get_def)
qed

subsection \<open>C7: the product list\<close>


subsection \<open>C9: an empty or unusual value of \<^verbatim>\<open>PORT\<close>\<close>

text \<open>
  C9. When \<^verbatim>\<open>PORT\<close> is set to the empty string the resolved port is the number 5000, as
  it is when the variable is absent. A non-empty value is used as the string it is,
  whether or not it reads as an integer or lies in the range of ports: it is the
  argument of \<^verbatim>\<open>app.listen\<close> unchanged.
\<close>

theorem port_falsy_or_verbatim:
  assumes "s \<noteq> []"
  shows "PORT (env(''PORT'' \<mapsto> [])) = Num 5000
         \<and> PORT (env(''PORT'' := None)) = Num 5000
         \<and> PORT (env(''PORT'' \<mapsto> s)) = Str s
         \<and> listen_port (start (env(''PORT'' \<mapsto> s))) = Str s"
  using assms by (simp add: PORT_def js_or_def env_get_def truthy_def start_def)

theorem port_falsy_or_verbatim_witness:
  "''99999 tcp'' \<noteq> []
   \<and> PORT (no_env(''PORT'' \<mapsto> [])) = Num 5000
   \<and> PORT (no_env(''PORT'' \<mapsto> ''99999 tcp'')) = Str ''99999 tcp''
   \<and> listen_port (start (no_env(''PORT'' \<mapsto> ''99999 tcp''))) = Str ''99999 tcp''"
proof -
  have h: "''99999 tcp'' \<noteq> []"
    by simp
  show ?thesis
    using port_falsy_or_verbatim [OF h, of no_env] by simp
qed

subsection \<open>C10: the handlers and the request\<close>

text \<open>
  C10, as amended. Each handler makes the same call on \<^verbatim>\<open>res\<close>, with the same constant
  argument, whatever the request and the state are, and returns the state it was given;
  serving a request leaves the state of the module as it was. Two requests that reach
  the same handler get identical responses whenever they have the same method and the
  framework's freshness check gives the same verdict for both.
\<close>

theorem handlers_ignore_request:
  "fst (root_handler ra sa) = fst (root_handler rb sb)
   \<and> fst (products_handler ra sa) = fst (products_handler rb sb)
   \<and> snd (root_handler ra sa) = sa
   \<and> snd (products_handler ra sa) = sa
   \<and> snd (serve fw srv ra) = srv
   \<and> (reaches fw ra h \<and> reaches fw rb h \<and> req_method ra = req_method rb
        \<and> (\<forall>chunk. fresh fw ra chunk = fresh fw rb chunk)
      \<longrightarrow> fst (serve fw (boot fw env) ra) =
            Responded (respond fw ra (fst (call h ra (boot fw env))))
          \<and> fst (serve fw (boot fw env) ra) = fst (serve fw (boot fw env) rb))"
proof -
  have handlers: "fst (root_handler ra sa) = fst (root_handler rb sb)"
    "fst (products_handler ra sa) = fst (products_handler rb sb)"
    "snd (root_handler ra sa) = sa" "snd (products_handler ra sa) = sa"
    by (simp_all add: root_handler_def products_handler_def)
  have wire: "fst (serve fw (boot fw env) ra) =
                Responded (respond fw ra (fst (call h ra (boot fw env))))
              \<and> fst (serve fw (boot fw env) ra) = fst (serve fw (boot fw env) rb)"
    if a: "reaches fw ra h" and b: "reaches fw rb h" and m: "req_method ra = req_method rb"
      and f: "\<forall>chunk. fresh fw ra chunk = fresh fw rb chunk"
  proof -
    have same: "respond fw ra x = respond fw rb x" for x
      using m f by (simp add: respond_def res_send_def res_json_def send_text_def
          split: reply.splits)
    have "fst (call h ra (boot fw env)) = fst (call h rb (boot fw env))"
      by (simp add: call_reply)
    with same show ?thesis
      by (simp add: serve_boot router_reaches [OF a] router_reaches [OF b])
  qed
  have state: "snd (serve fw srv ra) = srv"
    by (rule serve_state)
  from handlers state wire show ?thesis
    by blast
qed

theorem handlers_ignore_request_witness:
  "reaches sample_framework busy_get RootHandler
   \<and> reaches sample_framework (plain_request GET ''/'') RootHandler
   \<and> req_method busy_get = req_method (plain_request GET ''/'')
   \<and> (\<forall>chunk. fresh sample_framework busy_get chunk
               = fresh sample_framework (plain_request GET ''/'') chunk)
   \<and> busy_get \<noteq> plain_request GET ''/''
   \<and> fst (serve sample_framework (boot sample_framework no_env) busy_get)
       = fst (serve sample_framework (boot sample_framework no_env) (plain_request GET ''/''))"
proof -
  have h1: "reaches sample_framework busy_get RootHandler"
    by (simp add: reaches_def handles_method_def match_root_root sample_framework_def
        sample_json_def busy_get_def)
  have h2: "reaches sample_framework (plain_request GET ''/'') RootHandler"
    using sample_accepts_plain [of GET "''/''"]
    by (simp add: reaches_def handles_method_def match_root_root plain_request_def)
  have h3: "req_method busy_get = req_method (plain_request GET ''/'')"
    by (simp add: busy_get_def plain_request_def)
  have h4: "\<forall>chunk. fresh sample_framework busy_get chunk
                     = fresh sample_framework (plain_request GET ''/'') chunk"
    by (simp add: fresh_def conditional_def header_def truthy_def busy_get_def plain_request_def)
  have h5: "busy_get \<noteq> plain_request GET ''/''"
    by (simp add: busy_get_def plain_request_def)
  note imp = handlers_ignore_request [where ra = busy_get and rb = "plain_request GET ''/''"
      and fw = sample_framework and h = RootHandler and env = no_env,
      THEN conjunct2, THEN conjunct2, THEN conjunct2, THEN conjunct2, THEN conjunct2]
  have "fst (serve sample_framework (boot sample_framework no_env) busy_get)
        = fst (serve sample_framework (boot sample_framework no_env) (plain_request GET ''/''))"
    using imp h1 h2 h3 h4 by blast
  then show ?thesis
    using h1 h2 h3 h4 h5 by blast
qed

text \<open>
  The claim as stated fails: \<^verbatim>\<open>GET /\<close> and \<^verbatim>\<open>HEAD /\<close> reach the same handler and get
  different bodies, and so do \<^verbatim>\<open>GET /\<close> and \<^verbatim>\<open>GET /\<close> with \<^verbatim>\<open>If-None-Match: *\<close>, which get
  the statuses 200 and 304.
\<close>

theorem same_handler_different_responses:
  "reaches sample_framework (plain_request GET ''/'') RootHandler
   \<and> reaches sample_framework (plain_request HEAD ''/'') RootHandler
   \<and> reaches sample_framework (revalidating_get ''/'') RootHandler
   \<and> fst (serve sample_framework (boot sample_framework no_env) (plain_request GET ''/''))
     = Responded \<lparr>statusCode = 200, contentType = Some ''text/html; charset=utf-8'',
                  allow = None, content = ''Hello, World from the Dockerize App!''\<rparr>
   \<and> fst (serve sample_framework (boot sample_framework no_env) (plain_request HEAD ''/''))
     = Responded \<lparr>statusCode = 200, contentType = Some ''text/html; charset=utf-8'',
                  allow = None, content = []\<rparr>
   \<and> fst (serve sample_framework (boot sample_framework no_env) (revalidating_get ''/''))
     = Responded \<lparr>statusCode = 304, contentType = None, allow = None, content = []\<rparr>"
proof -
  have "reaches sample_framework (plain_request m ''/'') RootHandler" if "m = GET \<or> m = HEAD" for m
    using that sample_accepts_plain [of m "''/''"]
    by (auto simp: reaches_def handles_method_def match_root_root plain_request_def)
  moreover have "reaches sample_framework (revalidating_get ''/'') RootHandler"
    using sample_accepts_revalidating [of "''/''"]
    by (simp add: reaches_def handles_method_def match_root_root revalidating_get_def)
  ultimately show ?thesis
    by (simp add: plain_root_200 revalidating_root_304)
qed

end
